theory Spec2Isabelle
  imports Complex_Main
begin

section \<open>Numbers: numpy's float64, exact on finite values\<close>

text \<open>
  The estimator of \<^verbatim>\<open>src/src/measures.py\<close> computes in numpy's float64. The model keeps
  what decides the behaviour of the code and leaves rounding out: a finite value is an
  exact real number (no rounding, no overflow), and the three special values of
  IEEE 754 are values of their own, because numpy does not raise on a division by zero
  or on the logarithm of zero (it warns and returns \<^verbatim>\<open>inf\<close>, \<^verbatim>\<open>-inf\<close> or
  \<^verbatim>\<open>nan\<close>). Zero carries no sign: a zero divisor is read as \<^verbatim>\<open>+0.0\<close>.
\<close>

datatype npfloat = Fin real | PInf | NInf | NaN

fun is_finite :: "npfloat \<Rightarrow> bool" where
  "is_finite (Fin a) = True"
| "is_finite PInf = False"
| "is_finite NInf = False"
| "is_finite NaN = False"

instantiation npfloat :: "{zero, one, plus, uminus, minus, times, inverse}"
begin

definition zero_npfloat :: npfloat where
  "zero_npfloat = Fin 0"

definition one_npfloat :: npfloat where
  "one_npfloat = Fin 1"

fun plus_npfloat :: "npfloat \<Rightarrow> npfloat \<Rightarrow> npfloat" where
  "plus_npfloat NaN y = NaN"
| "plus_npfloat x NaN = NaN"
| "plus_npfloat (Fin a) (Fin b) = Fin (a + b)"
| "plus_npfloat (Fin a) PInf = PInf"
| "plus_npfloat (Fin a) NInf = NInf"
| "plus_npfloat PInf (Fin b) = PInf"
| "plus_npfloat PInf PInf = PInf"
| "plus_npfloat PInf NInf = NaN"
| "plus_npfloat NInf (Fin b) = NInf"
| "plus_npfloat NInf PInf = NaN"
| "plus_npfloat NInf NInf = NInf"

fun uminus_npfloat :: "npfloat \<Rightarrow> npfloat" where
  "uminus_npfloat (Fin a) = Fin (- a)"
| "uminus_npfloat PInf = NInf"
| "uminus_npfloat NInf = PInf"
| "uminus_npfloat NaN = NaN"

definition minus_npfloat :: "npfloat \<Rightarrow> npfloat \<Rightarrow> npfloat" where
  "minus_npfloat x y = x + (- y)"

fun times_npfloat :: "npfloat \<Rightarrow> npfloat \<Rightarrow> npfloat" where
  "times_npfloat NaN y = NaN"
| "times_npfloat x NaN = NaN"
| "times_npfloat (Fin a) (Fin b) = Fin (a * b)"
| "times_npfloat (Fin a) PInf = (if a = 0 then NaN else if 0 < a then PInf else NInf)"
| "times_npfloat (Fin a) NInf = (if a = 0 then NaN else if 0 < a then NInf else PInf)"
| "times_npfloat PInf (Fin b) = (if b = 0 then NaN else if 0 < b then PInf else NInf)"
| "times_npfloat NInf (Fin b) = (if b = 0 then NaN else if 0 < b then NInf else PInf)"
| "times_npfloat PInf PInf = PInf"
| "times_npfloat PInf NInf = NInf"
| "times_npfloat NInf PInf = NInf"
| "times_npfloat NInf NInf = PInf"

fun divide_npfloat :: "npfloat \<Rightarrow> npfloat \<Rightarrow> npfloat" where
  "divide_npfloat NaN y = NaN"
| "divide_npfloat x NaN = NaN"
| "divide_npfloat (Fin a) (Fin b) =
     (if b \<noteq> 0 then Fin (a / b)
      else if a = 0 then NaN else if 0 < a then PInf else NInf)"
| "divide_npfloat (Fin a) PInf = Fin 0"
| "divide_npfloat (Fin a) NInf = Fin 0"
| "divide_npfloat PInf (Fin b) = (if 0 \<le> b then PInf else NInf)"
| "divide_npfloat NInf (Fin b) = (if 0 \<le> b then NInf else PInf)"
| "divide_npfloat PInf PInf = NaN"
| "divide_npfloat PInf NInf = NaN"
| "divide_npfloat NInf PInf = NaN"
| "divide_npfloat NInf NInf = NaN"

definition inverse_npfloat :: "npfloat \<Rightarrow> npfloat" where
  "inverse_npfloat x = divide (Fin 1) x"

instance ..

end

text \<open>\<^verbatim>\<open>np.log\<close> and the square root inside \<^verbatim>\<open>np.linalg.norm\<close>.\<close>

fun np_log :: "npfloat \<Rightarrow> npfloat" where
  "np_log (Fin a) = (if 0 < a then Fin (ln a) else if a = 0 then NInf else NaN)"
| "np_log PInf = PInf"
| "np_log NInf = NaN"
| "np_log NaN = NaN"

fun np_sqrt :: "npfloat \<Rightarrow> npfloat" where
  "np_sqrt (Fin a) = (if 0 \<le> a then Fin (sqrt a) else NaN)"
| "np_sqrt PInf = PInf"
| "np_sqrt NInf = NaN"
| "np_sqrt NaN = NaN"

section \<open>Arrays: one-dimensional numpy arrays\<close>

text \<open>
  A state vector is a one-dimensional array. A binary operation on two arrays follows
  numpy's broadcasting: equal lengths combine elementwise, a length-one array is
  stretched to the other's length, and any other pair of lengths raises
  \<^verbatim>\<open>ValueError\<close>. The arrays hold floats, as the state vectors of the dynamical
  systems do.
\<close>

type_synonym ndarray = "npfloat list"

datatype error = ValueError | IndexError

definition broadcast :: "(npfloat \<Rightarrow> npfloat \<Rightarrow> npfloat) \<Rightarrow> ndarray \<Rightarrow> ndarray \<Rightarrow> error + ndarray" where
  "broadcast f xs ys =
     (if length xs = length ys then Inr (map2 f xs ys)
      else if length xs = 1 then Inr (map (f (hd xs)) ys)
      else if length ys = 1 then Inr (map (\<lambda>a. f a (hd ys)) xs)
      else Inl ValueError)"

definition np_add :: "ndarray \<Rightarrow> ndarray \<Rightarrow> error + ndarray" where
  "np_add xs ys = broadcast (+) xs ys"

definition np_subtract :: "ndarray \<Rightarrow> ndarray \<Rightarrow> error + ndarray" where
  "np_subtract xs ys = broadcast (-) xs ys"

text \<open>An array times a scalar (\<^verbatim>\<open>dx * c\<close>, \<^verbatim>\<open>initial_perturbation *= c\<close>).\<close>

definition np_scale :: "ndarray \<Rightarrow> npfloat \<Rightarrow> ndarray" where
  "np_scale xs c = map (\<lambda>a. a * c) xs"

definition np_ones :: "nat \<Rightarrow> ndarray" where
  "np_ones n = replicate n (Fin 1)"

definition np_zeros :: "nat \<Rightarrow> ndarray" where
  "np_zeros n = replicate n (Fin 0)"

text \<open>
  \<^verbatim>\<open>np.sum\<close>; the order of the additions does not matter in exact arithmetic, the model
  adds from the left.
\<close>

definition np_sum :: "ndarray \<Rightarrow> npfloat" where
  "np_sum xs = foldl (+) (Fin 0) xs"

text \<open>\<^verbatim>\<open>np.linalg.norm\<close> of a one-dimensional real array: \<^verbatim>\<open>sqrt(x.dot(x))\<close>.\<close>

definition linalg_norm :: "ndarray \<Rightarrow> npfloat" where
  "linalg_norm xs = np_sqrt (np_sum (map (\<lambda>a. a * a) xs))"

text \<open>\<^verbatim>\<open>np.cumsum\<close>: the running sums, the first of them the first element.\<close>

fun cumsum_from :: "npfloat \<Rightarrow> ndarray \<Rightarrow> ndarray" where
  "cumsum_from acc [] = []"
| "cumsum_from acc (a # as) = (acc + a) # cumsum_from (acc + a) as"

definition np_cumsum :: "ndarray \<Rightarrow> ndarray" where
  "np_cumsum xs = cumsum_from (Fin 0) xs"

text \<open>
  \<^verbatim>\<open>np.average\<close> without weights is the mean: the sum over the number of elements, which
  is \<^verbatim>\<open>nan\<close> (with a warning, no exception) for the empty array.
\<close>

definition np_average :: "ndarray \<Rightarrow> npfloat" where
  "np_average xs = np_sum xs / Fin (real (length xs))"

text \<open>\<^verbatim>\<open>np.arange(1, N + 1)\<close>, as floats: it is only ever multiplied by \<^verbatim>\<open>dt\<close>.\<close>

definition np_arange1 :: "int \<Rightarrow> ndarray" where
  "np_arange1 N = map (\<lambda>k. Fin (real_of_int k)) [1..N]"

section \<open>The estimator\<close>

text \<open>
  \<^verbatim>\<open>largest_lyapunov_exponent\<close> of \<^verbatim>\<open>src/src/measures.py\<close>. The iterator is a function
  on arrays; the number of times it has been invoked is kept as part of the state, as a
  call-counting iterator would observe it. The function returns a float or an array.
\<close>

type_synonym iterator = "ndarray \<Rightarrow> ndarray"

datatype lle_return = Scalar npfloat | Convergence ndarray

text \<open>
  The variables of the loop: \<^verbatim>\<open>x\<close> (here \<open>x_main\<close>, the main trajectory), \<^verbatim>\<open>x_pert\<close>,
  \<^verbatim>\<open>log_divergence\<close>, and the invocations of the iterator so far.
\<close>

record frame =
  x_main :: ndarray
  x_pert :: ndarray
  log_divergence :: ndarray
  iter_calls :: nat

text \<open>
  What a caller observes of one call: the value returned or the exception raised, the
  invocations of the iterator, and the contents of the array it passed as
  \<^verbatim>\<open>initial_perturbation\<close> (\<open>None\<close> when it passed none).
\<close>

record outcome =
  returned :: "error + lle_return"
  iterator_calls :: nat
  caller_perturbation :: "ndarray option"

text \<open>
  Lines 40 to 45: the perturbation, the vector of ones when none is given, multiplied in
  place by \<^verbatim>\<open>deviation_scale / np.linalg.norm(initial_perturbation)\<close>.
\<close>

definition scaled_perturbation :: "ndarray \<Rightarrow> npfloat \<Rightarrow> ndarray option \<Rightarrow> ndarray" where
  "scaled_perturbation starting_point deviation_scale initial_perturbation =
     (let x_dim = length starting_point;
          ip = (case initial_perturbation of None \<Rightarrow> np_ones x_dim | Some v \<Rightarrow> v)
      in np_scale ip (deviation_scale / linalg_norm ip))"

text \<open>Lines 53 to 55: \<^verbatim>\<open>for i_t in range(part_time_steps)\<close>, two invocations a step.\<close>

fun time_steps :: "iterator \<Rightarrow> nat \<Rightarrow> frame \<Rightarrow> frame" where
  "time_steps iterator_func 0 fr = fr"
| "time_steps iterator_func (Suc n) fr =
     time_steps iterator_func n
       (fr\<lparr>x_main := iterator_func (x_main fr),
           x_pert := iterator_func (x_pert fr),
           iter_calls := Suc (Suc (iter_calls fr))\<rparr>)"

text \<open>
  Lines 56 to 59, on the frame the time steps of the block leave: the divergence, its
  norm, the record of its logarithm, and the renormalisation. An exception carries the
  number of iterator invocations made before it.
\<close>

definition renormalize :: "npfloat \<Rightarrow> nat \<Rightarrow> frame \<Rightarrow> (error \<times> nat) + frame" where
  "renormalize deviation_scale i_n fr =
     (case np_subtract (x_pert fr) (x_main fr) of
        Inl e \<Rightarrow> Inl (e, iter_calls fr)
      | Inr dx \<Rightarrow>
          (let norm_dx = linalg_norm dx in
           if length (log_divergence fr) \<le> i_n then Inl (IndexError, iter_calls fr)
           else
             (case np_add (x_main fr) (np_scale dx (deviation_scale / norm_dx)) of
                Inl e \<Rightarrow> Inl (e, iter_calls fr)
              | Inr xp \<Rightarrow>
                  Inr (fr\<lparr>x_pert := xp,
                          log_divergence :=
                            (log_divergence fr)[i_n := np_log (norm_dx / deviation_scale)]\<rparr>))))"

definition block :: "iterator \<Rightarrow> npfloat \<Rightarrow> int \<Rightarrow> nat \<Rightarrow> frame \<Rightarrow> (error \<times> nat) + frame" where
  "block iterator_func deviation_scale part_time_steps i_n fr =
     renormalize deviation_scale i_n (time_steps iterator_func (nat part_time_steps) fr)"

text \<open>Line 52: \<^verbatim>\<open>for i_n in range(N)\<close>, over the indices of the range.\<close>

fun blocks :: "iterator \<Rightarrow> npfloat \<Rightarrow> int \<Rightarrow> nat list \<Rightarrow> frame \<Rightarrow> (error \<times> nat) + frame" where
  "blocks iterator_func deviation_scale part_time_steps [] fr = Inr fr"
| "blocks iterator_func deviation_scale part_time_steps (i_n # rest) fr =
     (case block iterator_func deviation_scale part_time_steps i_n fr of
        Inl e \<Rightarrow> Inl e
      | Inr fr' \<Rightarrow> blocks iterator_func deviation_scale part_time_steps rest fr')"

text \<open>Lines 61 to 64: the value returned.\<close>

definition aggregate :: "ndarray \<Rightarrow> int \<Rightarrow> int \<Rightarrow> npfloat \<Rightarrow> bool \<Rightarrow> error + lle_return" where
  "aggregate log_div N part_time_steps dt return_convergence =
     (if return_convergence then
        (case broadcast (/) (np_cumsum log_div)
                (np_scale (np_scale (np_arange1 N) dt) (Fin (real_of_int part_time_steps))) of
           Inl e \<Rightarrow> Inl e
         | Inr conv \<Rightarrow> Inr (Convergence conv))
      else Inr (Scalar (np_average log_div / (dt * Fin (real_of_int part_time_steps)))))"

text \<open>Lines 47 to 50: the variables as the loop finds them.\<close>

definition initial_frame :: "ndarray \<Rightarrow> ndarray \<Rightarrow> int \<Rightarrow> frame" where
  "initial_frame starting_point xp N =
     \<lparr>x_main = starting_point, x_pert = xp, log_divergence = np_zeros (nat N), iter_calls = 0\<rparr>"

text \<open>
  The whole function. \<^verbatim>\<open>np.zeros(N)\<close> raises \<^verbatim>\<open>ValueError\<close> for a negative \<open>N\<close>;
  \<^verbatim>\<open>starting_point + initial_perturbation\<close> raises it when the shapes do not broadcast.
  Both come after the in-place scaling of line 45, so the caller's array is already
  overwritten when they are raised.
\<close>

definition largest_lyapunov_exponent ::
  "iterator \<Rightarrow> ndarray \<Rightarrow> npfloat \<Rightarrow> int \<Rightarrow> int \<Rightarrow> npfloat \<Rightarrow> ndarray option \<Rightarrow> bool \<Rightarrow> outcome" where
  "largest_lyapunov_exponent iterator_func starting_point deviation_scale N part_time_steps dt
       initial_perturbation return_convergence =
     (let ip = scaled_perturbation starting_point deviation_scale initial_perturbation;
          caller = map_option (\<lambda>v. ip) initial_perturbation
      in
        if N < 0 then \<lparr>returned = Inl ValueError, iterator_calls = 0, caller_perturbation = caller\<rparr>
        else
          (case np_add starting_point ip of
             Inl e \<Rightarrow> \<lparr>returned = Inl e, iterator_calls = 0, caller_perturbation = caller\<rparr>
           | Inr xp \<Rightarrow>
               (case blocks iterator_func deviation_scale part_time_steps [0..<nat N]
                       (initial_frame starting_point xp N) of
                  Inl (e, c) \<Rightarrow>
                    \<lparr>returned = Inl e, iterator_calls = c, caller_perturbation = caller\<rparr>
                | Inr fr \<Rightarrow>
                    \<lparr>returned = aggregate (log_divergence fr) N part_time_steps dt return_convergence,
                     iterator_calls = iter_calls fr, caller_perturbation = caller\<rparr>)))"

section \<open>The algorithm as the specification words it\<close>

text \<open>
  The two trajectories at the start of block \<open>i\<close>, for vectors of one dimension: each
  block advances both by \<open>p\<close> applications of the iterator, takes the divergence
  \<open>dx = x_pert - x\<close> and its norm, and restarts the perturbed trajectory at
  \<open>x + dx * (deviation_scale / norm)\<close>. All operations are elementwise.
\<close>

fun spec_trajectories ::
  "iterator \<Rightarrow> npfloat \<Rightarrow> nat \<Rightarrow> ndarray \<Rightarrow> ndarray \<Rightarrow> nat \<Rightarrow> ndarray \<times> ndarray" where
  "spec_trajectories f ds p x0 xp0 0 = (x0, xp0)"
| "spec_trajectories f ds p x0 xp0 (Suc i) =
     (let (xa, xpa) = spec_trajectories f ds p x0 xp0 i;
          xb = (f ^^ p) xa;
          dx = map2 (-) ((f ^^ p) xpa) xb
      in (xb, map2 (+) xb (map (\<lambda>a. a * (ds / linalg_norm dx)) dx)))"

text \<open>The divergence block \<open>i\<close> measures, after both trajectories made their \<open>p\<close> steps.\<close>

definition spec_divergence ::
  "iterator \<Rightarrow> npfloat \<Rightarrow> nat \<Rightarrow> ndarray \<Rightarrow> ndarray \<Rightarrow> nat \<Rightarrow> ndarray" where
  "spec_divergence f ds p x0 xp0 i =
     (let (xa, xpa) = spec_trajectories f ds p x0 xp0 i
      in map2 (-) ((f ^^ p) xpa) ((f ^^ p) xa))"

text \<open>The log-divergence of block \<open>i\<close>: \<open>ln (norm / deviation_scale)\<close>.\<close>

definition spec_log_divergence ::
  "iterator \<Rightarrow> npfloat \<Rightarrow> nat \<Rightarrow> ndarray \<Rightarrow> ndarray \<Rightarrow> nat \<Rightarrow> npfloat" where
  "spec_log_divergence f ds p x0 xp0 i =
     np_log (linalg_norm (spec_divergence f ds p x0 xp0 i) / ds)"

section \<open>The loop, step by step\<close>

text \<open>
  When the iterator keeps the dimension of its argument and the perturbation has the
  dimension of the starting point, no operation of the loop raises, and the loop
  computes the trajectories and log-divergences of the specification.
\<close>

lemma time_steps_eq:
  "time_steps f n fr =
     fr\<lparr>x_main := (f ^^ n) (x_main fr), x_pert := (f ^^ n) (x_pert fr),
        iter_calls := iter_calls fr + 2 * n\<rparr>"
  by (induction n arbitrary: fr) (simp_all add: funpow_swap1)

lemma blocks_append:
  "blocks f ds p (is @ js) fr =
     (case blocks f ds p is fr of Inl e \<Rightarrow> Inl e | Inr fr' \<Rightarrow> blocks f ds p js fr')"
  by (induction "is" arbitrary: fr) (simp_all split: sum.splits)

lemma funpow_length:
  fixes f :: iterator
  shows "(\<And>v. length (f v) = length v) \<Longrightarrow> length ((f ^^ n) v) = length v"
  by (induction n) simp_all

lemma broadcast_same_length:
  "length xs = length ys \<Longrightarrow> broadcast f xs ys = Inr (map2 f xs ys)"
  by (simp add: broadcast_def)

lemma spec_trajectories_length:
  fixes f :: iterator
  assumes "\<And>v. length (f v) = length v" and "length xp0 = length x0"
  shows "length (fst (spec_trajectories f ds p x0 xp0 i)) = length x0
       \<and> length (snd (spec_trajectories f ds p x0 xp0 i)) = length x0"
  using assms by (induction i) (auto simp: funpow_length Let_def split: prod.splits)

lemma update_at_boundary:
  "n < length ld \<Longrightarrow> length xs = n \<Longrightarrow>
   (xs @ drop n ld)[n := v] = (xs @ [v]) @ drop (Suc n) ld"
  by (simp add: list_update_append upd_conv_take_nth_drop)

lemma block_valid:
  fixes f :: iterator
  assumes f: "\<And>v. length (f v) = length v"
    and len: "length (x_pert fr) = length (x_main fr)"
    and i: "i < length (log_divergence fr)"
  shows "block f ds p i fr =
     (let xb = (f ^^ nat p) (x_main fr);
          dx = map2 (-) ((f ^^ nat p) (x_pert fr)) xb
      in Inr \<lparr>x_main = xb,
              x_pert = map2 (+) xb (map (\<lambda>a. a * (ds / linalg_norm dx)) dx),
              log_divergence = (log_divergence fr)[i := np_log (linalg_norm dx / ds)],
              iter_calls = iter_calls fr + 2 * nat p\<rparr>)"
  using assms
  by (simp add: block_def renormalize_def time_steps_eq np_subtract_def np_add_def np_scale_def
      broadcast_same_length funpow_length Let_def)

lemma blocks_run:
  fixes f :: iterator
  assumes f: "\<And>v. length (f v) = length v"
    and len: "length xp0 = length x0"
    and n: "n \<le> length ld0"
  shows "blocks f ds p [0..<n] \<lparr>x_main = x0, x_pert = xp0, log_divergence = ld0, iter_calls = 0\<rparr> =
     Inr \<lparr>x_main = fst (spec_trajectories f ds (nat p) x0 xp0 n),
          x_pert = snd (spec_trajectories f ds (nat p) x0 xp0 n),
          log_divergence = map (spec_log_divergence f ds (nat p) x0 xp0) [0..<n] @ drop n ld0,
          iter_calls = 2 * n * nat p\<rparr>"
  using n
proof (induction n)
  case 0
  then show ?case by simp
next
  case (Suc n)
  let ?T = "spec_trajectories f ds (nat p) x0 xp0"
  let ?fr = "\<lparr>x_main = fst (?T n), x_pert = snd (?T n),
          log_divergence = map (spec_log_divergence f ds (nat p) x0 xp0) [0..<n] @ drop n ld0,
          iter_calls = 2 * n * nat p\<rparr>"
  have run: "blocks f ds p [0..<n] \<lparr>x_main = x0, x_pert = xp0, log_divergence = ld0, iter_calls = 0\<rparr> = Inr ?fr"
    using Suc by simp
  have lens: "length (x_pert ?fr) = length (x_main ?fr)"
    using spec_trajectories_length [OF f len, of ds "nat p" n] by simp
  have idx: "n < length (log_divergence ?fr)"
    using Suc.prems by simp
  have upd: "(map (spec_log_divergence f ds (nat p) x0 xp0) [0..<n] @ drop n ld0)[n := v]
      = map (spec_log_divergence f ds (nat p) x0 xp0) [0..<n] @ [v] @ drop (Suc n) ld0" for v
    using update_at_boundary [of n ld0 "map (spec_log_divergence f ds (nat p) x0 xp0) [0..<n]" v] Suc.prems
    by simp
  have "blocks f ds p [0..<Suc n] \<lparr>x_main = x0, x_pert = xp0, log_divergence = ld0, iter_calls = 0\<rparr>
      = block f ds p n ?fr"
    by (simp add: blocks_append run split: sum.splits)
  also have "\<dots> = Inr \<lparr>x_main = fst (?T (Suc n)), x_pert = snd (?T (Suc n)),
          log_divergence = map (spec_log_divergence f ds (nat p) x0 xp0) [0..<Suc n] @ drop (Suc n) ld0,
          iter_calls = 2 * Suc n * nat p\<rparr>"
    unfolding block_valid [OF f lens idx]
    by (simp add: Let_def upd spec_log_divergence_def spec_divergence_def split: prod.splits)
  finally show ?case .
qed

lemma cumsum_from_eq:
  "cumsum_from acc xs = map (\<lambda>k. foldl (+) acc (take k xs)) [1..<Suc (length xs)]"
proof (induction xs arbitrary: acc)
  case Nil
  then show ?case by simp
next
  case (Cons a as)
  have "[1..<Suc (length (a # as))] = 1 # map Suc [1..<Suc (length as)]"
    by (simp add: upt_conv_Cons map_Suc_upt del: upt_Suc)
  then show ?case using Cons by (simp add: o_def del: upt_Suc)
qed

lemma np_cumsum_eq:
  "np_cumsum xs = map (\<lambda>k. np_sum (take k xs)) [1..<Suc (length xs)]"
  by (simp add: np_cumsum_def np_sum_def cumsum_from_eq)

lemma upto_nat: "[1..int n] = map int [1..<Suc n]"
  by (induction n) (simp_all add: upto_rec2)

lemma denominators_eq:
  "0 \<le> N \<Longrightarrow>
   np_scale (np_scale (np_arange1 N) dt) (Fin (real_of_int p)) =
     map (\<lambda>k. Fin (real k) * dt * Fin (real_of_int p)) [1..<Suc (nat N)]"
  using upto_nat [of "nat N"] by (simp add: np_scale_def np_arange1_def o_def)

lemma map2_map_same: "map2 f (map g xs) (map h xs) = map (\<lambda>x. f (g x) (h x)) xs"
  by (induction xs) simp_all

lemma aggregate_convergence:
  assumes "0 \<le> N" and "length ld = nat N"
  shows "aggregate ld N p dt True =
     Inr (Convergence (map (\<lambda>k. np_sum (take k ld) / (Fin (real k) * dt * Fin (real_of_int p)))
                        [1..<Suc (nat N)]))"
  using assms
  by (simp add: aggregate_def denominators_eq np_cumsum_eq broadcast_same_length map2_map_same
      del: upt_Suc)

lemma matching_add:
  assumes "case ip of None \<Rightarrow> True | Some v \<Rightarrow> length v = length sp"
  shows "np_add sp (scaled_perturbation sp ds ip) = Inr (map2 (+) sp (scaled_perturbation sp ds ip))"
    and "length (scaled_perturbation sp ds ip) = length sp"
  using assms
  by (auto simp: np_add_def scaled_perturbation_def np_scale_def np_ones_def broadcast_same_length
      split: option.splits)

lemma lle_valid:
  fixes f :: iterator
  assumes f: "\<And>v. length (f v) = length v"
    and ip: "case ip of None \<Rightarrow> True | Some v \<Rightarrow> length v = length sp"
    and N: "0 \<le> N"
  shows "largest_lyapunov_exponent f sp ds N p dt ip rc =
    (let xp0 = map2 (+) sp (scaled_perturbation sp ds ip) in
     \<lparr>returned = aggregate (map (spec_log_divergence f ds (nat p) sp xp0) [0..<nat N]) N p dt rc,
      iterator_calls = 2 * nat N * nat p,
      caller_perturbation = map_option (\<lambda>v. scaled_perturbation sp ds ip) ip\<rparr>)"
proof -
  let ?xp0 = "map2 (+) sp (scaled_perturbation sp ds ip)"
  have len: "length ?xp0 = length sp"
    using matching_add(2) [OF ip, of ds] by simp
  have "blocks f ds p [0..<nat N] (initial_frame sp ?xp0 N) =
     Inr \<lparr>x_main = fst (spec_trajectories f ds (nat p) sp ?xp0 (nat N)),
          x_pert = snd (spec_trajectories f ds (nat p) sp ?xp0 (nat N)),
          log_divergence = map (spec_log_divergence f ds (nat p) sp ?xp0) [0..<nat N] @ drop (nat N) (np_zeros (nat N)),
          iter_calls = 2 * nat N * nat p\<rparr>"
    unfolding initial_frame_def
    by (rule blocks_run [OF f len]) (simp add: np_zeros_def)
  then show ?thesis
    using N matching_add(1) [OF ip, of ds]
    by (simp add: largest_lyapunov_exponent_def Let_def np_zeros_def)
qed

section \<open>A run to evaluate: the doubling map\<close>

text \<open>
  The map \<open>x \<mapsto> 2 x\<close> in dimension one, from \<open>x = 1\<close> with \<open>deviation_scale = 1\<close>: every
  block of one step doubles the divergence, so every log-divergence is \<open>ln 2\<close>.
\<close>

lemma ones_perturbation_1d: "scaled_perturbation [Fin 1] (Fin 1) None = [Fin 1]"
  by (simp add: scaled_perturbation_def np_ones_def np_scale_def linalg_norm_def np_sum_def)

lemma doubling_log_divergence_0: "spec_log_divergence (map (\<lambda>a. Fin 2 * a)) (Fin 1) (Suc 0) [Fin 1] [Fin 2] 0 = Fin (ln 2)"
  by (simp add: spec_log_divergence_def spec_divergence_def linalg_norm_def np_sum_def minus_npfloat_def)

lemma doubling_log_divergence_1: "spec_log_divergence (map (\<lambda>a. Fin 2 * a)) (Fin 1) (Suc 0) [Fin 1] [Fin 2] (Suc 0) = Fin (ln 2)"
  by (simp add: spec_log_divergence_def spec_divergence_def linalg_norm_def np_sum_def minus_npfloat_def)

lemma doubling_run:
  "returned (largest_lyapunov_exponent (map (\<lambda>a. Fin 2 * a)) [Fin 1] (Fin 1) 2 1 (Fin 1) None True)
     = Inr (Convergence [Fin (ln 2), Fin (ln 2)])"
proof -
  have f: "\<And>v::ndarray. length (map (\<lambda>a. Fin 2 * a) v) = length v" by simp
  have ip: "case None of None \<Rightarrow> True | Some (v::ndarray) \<Rightarrow> length v = length [Fin 1]" by simp
  have N: "(0::int) \<le> 2" by simp
  have two: "[0..<2] = [0, Suc 0]" "[Suc 0..<3] = [Suc 0, Suc (Suc 0)]"
    by (simp_all add: upt_conv_Cons numeral_2_eq_2 numeral_3_eq_3)
  show ?thesis
    unfolding lle_valid [OF f ip N]
    using aggregate_convergence [OF N, of "[Fin (ln 2), Fin (ln 2)]" 1 "Fin 1"]
    by (simp add: Let_def two ones_perturbation_1d doubling_log_divergence_0
        doubling_log_divergence_1 np_sum_def del: upt_Suc)
qed

section \<open>The two ways to aggregate\<close>

lemma mean_over_steps:
  assumes "0 < n"
  shows "(S / Fin n) / (dt * Fin p) = S / (Fin n * dt * Fin p)"
proof (cases dt)
  case (Fin d)
  define q where "q = d * p"
  have den: "dt * Fin p = Fin q" "Fin n * dt * Fin p = Fin (n * q)"
    by (simp_all add: Fin q_def mult.assoc)
  have sgn: "0 \<le> n * q \<longleftrightarrow> 0 \<le> q" "n * q = 0 \<longleftrightarrow> q = 0"
    using assms by (simp_all add: zero_le_mult_iff)
  show ?thesis
    unfolding den using assms sgn
    by (cases S) (auto simp: zero_less_divide_iff)
next
  case PInf
  then show ?thesis using assms by (cases S) auto
next
  case NInf
  then show ?thesis using assms by (cases S) auto
next
  case NaN
  then show ?thesis using assms by (cases S) auto
qed

lemma aggregate_scalar:
  "aggregate ld N p dt False = Inr (Scalar (np_average ld / (dt * Fin (real_of_int p))))"
  by (simp add: aggregate_def)

text \<open>
  In exact arithmetic the mean over \<open>dt * part_time_steps\<close> is the sum over
  \<open>N * dt * part_time_steps\<close>, so the scalar is the last entry of the convergence
  sequence. This says nothing of the rounded float64 values, which the two paths round
  differently.
\<close>

lemma scalar_is_last_convergence_exact:
  fixes iterator_func :: iterator
  assumes "1 \<le> N"
    and "\<And>v. length (iterator_func v) = length v"
    and "case initial_perturbation of None \<Rightarrow> True | Some v \<Rightarrow> length v = length starting_point"
  shows "\<exists>conv.
      returned (largest_lyapunov_exponent iterator_func starting_point deviation_scale N
                  part_time_steps dt initial_perturbation True) = Inr (Convergence conv)
    \<and> length conv = nat N
    \<and> returned (largest_lyapunov_exponent iterator_func starting_point deviation_scale N
                  part_time_steps dt initial_perturbation False) = Inr (Scalar (last conv))"
proof -
  let ?ld = "map (spec_log_divergence iterator_func deviation_scale (nat part_time_steps) starting_point
       (map2 (+) starting_point (scaled_perturbation starting_point deviation_scale initial_perturbation)))
       [0..<nat N]"
  let ?conv = "map (\<lambda>k. np_sum (take k ?ld) / (Fin (real k) * dt * Fin (real_of_int part_time_steps)))
                        [1..<Suc (nat N)]"
  have N: "0 \<le> N" using assms(1) by simp
  have ret: "returned (largest_lyapunov_exponent iterator_func starting_point deviation_scale N
                  part_time_steps dt initial_perturbation True) = Inr (Convergence ?conv)"
    using aggregate_convergence [OF N, of ?ld part_time_steps dt]
    by (simp add: lle_valid [OF assms(2) assms(3) N] Let_def del: upt_Suc)
  have "last ?conv = np_sum ?ld / (Fin (real (nat N)) * dt * Fin (real_of_int part_time_steps))"
  proof -
    have "Suc 0 \<le> nat N" using assms(1) by linarith
    then show ?thesis by (simp add: last_map)
  qed
  also have "\<dots> = np_average ?ld / (dt * Fin (real_of_int part_time_steps))"
    using assms(1) mean_over_steps [of "real (nat N)" "np_sum ?ld" dt "real_of_int part_time_steps"]
    by (simp add: np_average_def)
  finally have "returned (largest_lyapunov_exponent iterator_func starting_point deviation_scale N
                  part_time_steps dt initial_perturbation False) = Inr (Scalar (last ?conv))"
    by (simp add: lle_valid [OF assms(2) assms(3) N] Let_def aggregate_scalar del: upt_Suc)
  then show ?thesis
    using ret by (intro exI [of _ ?conv]) simp
qed

section \<open>Vectors of real numbers\<close>

lemma foldl_Fin: "foldl (+) (Fin acc) (map Fin xs) = Fin (acc + sum_list xs)"
  by (induction xs arbitrary: acc) (simp_all add: add.assoc)

lemma np_sum_Fin: "np_sum (map Fin xs) = Fin (sum_list xs)"
  by (simp add: np_sum_def foldl_Fin)

lemma linalg_norm_Fin: "linalg_norm (map Fin xs) = Fin (sqrt (\<Sum>a\<leftarrow>xs. a * a))"
proof -
  have "map (\<lambda>a. a * a) (map Fin xs) = map Fin (map (\<lambda>a. a * a) xs)" by simp
  moreover have "0 \<le> (\<Sum>a\<leftarrow>xs. a * a)" by (rule sum_list_nonneg) auto
  ultimately show ?thesis by (simp add: linalg_norm_def np_sum_Fin del: map_map)
qed

lemma sum_squares_zero: "(\<Sum>a\<leftarrow>xs. a * a) = (0::real) \<longleftrightarrow> (\<forall>a\<in>set xs. a = 0)"
proof -
  have "(\<Sum>a\<leftarrow>xs. a * a) = 0 \<longleftrightarrow> (\<forall>b\<in>set (map (\<lambda>a. a * a) xs). b = 0)"
    by (rule sum_list_nonneg_eq_0_iff) auto
  then show ?thesis by auto
qed


lemma sum_squares_nonneg: "(0::real) \<le> (\<Sum>a\<leftarrow>xs. a * a)"
  by (rule sum_list_nonneg) auto





section \<open>Broadcasting, and what a call raises\<close>

lemma block_broadcast:
  fixes f :: iterator
  assumes f: "\<And>v. length (f v) = length v"
    and len: "length (x_pert fr) = length (x_main fr) \<or> length (x_main fr) = 1"
    and i: "i < length (log_divergence fr)"
  shows "\<exists>fr'. block f ds p i fr = Inr fr'
      \<and> length (x_main fr') = length (x_main fr)
      \<and> length (x_pert fr') = length (x_pert fr)
      \<and> length (log_divergence fr') = length (log_divergence fr)
      \<and> iter_calls fr' = iter_calls fr + 2 * nat p"
  using len i
  by (auto simp: block_def renormalize_def time_steps_eq np_subtract_def np_add_def np_scale_def
      broadcast_def funpow_length [OF f] Let_def)

lemma blocks_broadcast:
  fixes f :: iterator
  assumes f: "\<And>v. length (f v) = length v"
    and len: "length (x_pert fr) = length (x_main fr) \<or> length (x_main fr) = 1"
    and idx: "\<forall>i\<in>set is. i < length (log_divergence fr)"
  shows "\<exists>fr'. blocks f ds p is fr = Inr fr'
      \<and> length (log_divergence fr') = length (log_divergence fr)
      \<and> iter_calls fr' = iter_calls fr + 2 * length is * nat p"
  using len idx
proof (induction "is" arbitrary: fr)
  case Nil
  then show ?case by simp
next
  case (Cons i "is")
  from Cons.prems obtain fr1 where
    b: "block f ds p i fr = Inr fr1"
    and l: "length (x_main fr1) = length (x_main fr)" "length (x_pert fr1) = length (x_pert fr)"
    and ld: "length (log_divergence fr1) = length (log_divergence fr)"
    and c: "iter_calls fr1 = iter_calls fr + 2 * nat p"
    using block_broadcast [OF f, of fr i ds p] by auto
  have "length (x_pert fr1) = length (x_main fr1) \<or> length (x_main fr1) = 1"
    using Cons.prems(1) l by simp
  moreover have "\<forall>j\<in>set is. j < length (log_divergence fr1)"
    using Cons.prems(2) ld by simp
  ultimately obtain fr' where
    "blocks f ds p is fr1 = Inr fr'"
    "length (log_divergence fr') = length (log_divergence fr1)"
    "iter_calls fr' = iter_calls fr1 + 2 * length is * nat p"
    using Cons.IH [of fr1] by blast
  then show ?case using b ld c by simp
qed

lemma aggregate_returns:
  assumes "0 \<le> N" and "length ld = nat N"
  shows "\<exists>r. aggregate ld N p dt rc = Inr r"
  using aggregate_convergence [OF assms, of p dt] by (cases rc) (simp_all add: aggregate_scalar)

lemma lle_negative_N:
  assumes "N < 0"
  shows "returned (largest_lyapunov_exponent f sp ds N p dt ip rc) = Inl ValueError"
    and "iterator_calls (largest_lyapunov_exponent f sp ds N p dt ip rc) = 0"
  using assms by (simp_all add: largest_lyapunov_exponent_def Let_def)

lemma np_add_broadcastable:
  assumes "length ys = length xs \<or> length ys = 1 \<or> length xs = 1"
  shows "\<exists>zs. np_add xs ys = Inr zs \<and> (length zs = length xs \<or> length xs = 1)"
proof (cases "length xs = length ys")
  case True
  then show ?thesis by (simp add: np_add_def broadcast_def)
next
  case False
  show ?thesis
  proof (cases "length xs = 1")
    case True
    with False show ?thesis by (simp add: np_add_def broadcast_def)
  next
    case nx: False
    with False assms have "length ys = 1" by auto
    with False nx show ?thesis by (simp add: np_add_def broadcast_def)
  qed
qed

lemma lle_broadcastable:
  fixes f :: iterator
  assumes f: "\<And>v. length (f v) = length v"
    and N: "0 \<le> N"
    and bc: "length (scaled_perturbation sp ds ip) = length sp
           \<or> length (scaled_perturbation sp ds ip) = 1 \<or> length sp = 1"
  shows "\<exists>r. returned (largest_lyapunov_exponent f sp ds N p dt ip rc) = Inr r"
    and "iterator_calls (largest_lyapunov_exponent f sp ds N p dt ip rc) = 2 * nat N * nat p"
proof -
  let ?ip = "scaled_perturbation sp ds ip"
  obtain xp where xp: "np_add sp ?ip = Inr xp" and lx: "length xp = length sp \<or> length sp = 1"
    using np_add_broadcastable [OF bc] by blast
  let ?fr = "initial_frame sp xp N"
  have "length (x_pert ?fr) = length (x_main ?fr) \<or> length (x_main ?fr) = 1"
    using lx by (simp add: initial_frame_def)
  moreover have "\<forall>i\<in>set [0..<nat N]. i < length (log_divergence ?fr)"
    by (simp add: initial_frame_def np_zeros_def)
  ultimately obtain fr' where
    run: "blocks f ds p [0..<nat N] ?fr = Inr fr'"
    and ld: "length (log_divergence fr') = length (log_divergence ?fr)"
    and c: "iter_calls fr' = iter_calls ?fr + 2 * length [0..<nat N] * nat p"
    using blocks_broadcast [OF f, of ?fr "[0..<nat N]" ds p] by blast
  have "length (log_divergence fr') = nat N"
    using ld by (simp add: initial_frame_def np_zeros_def)
  then obtain r where "aggregate (log_divergence fr') N p dt rc = Inr r"
    using aggregate_returns [OF N] by blast
  then show "\<exists>r. returned (largest_lyapunov_exponent f sp ds N p dt ip rc) = Inr r"
    using N xp run by (simp add: largest_lyapunov_exponent_def Let_def)
  show "iterator_calls (largest_lyapunov_exponent f sp ds N p dt ip rc) = 2 * nat N * nat p"
    using N xp run c by (simp add: largest_lyapunov_exponent_def Let_def initial_frame_def)
qed

lemma lle_not_broadcastable:
  assumes "0 \<le> N" and "length v \<noteq> length sp" and "length v \<noteq> 1" and "length sp \<noteq> 1"
  shows "returned (largest_lyapunov_exponent f sp ds N p dt (Some v) rc) = Inl ValueError"
    and "iterator_calls (largest_lyapunov_exponent f sp ds N p dt (Some v) rc) = 0"
  using assms
  by (simp_all add: largest_lyapunov_exponent_def Let_def np_add_def broadcast_def
      scaled_perturbation_def np_scale_def)

lemma scaled_perturbation_length:
  "length (scaled_perturbation sp ds ip) = (case ip of None \<Rightarrow> length sp | Some v \<Rightarrow> length v)"
  by (simp add: scaled_perturbation_def np_scale_def np_ones_def Let_def split: option.splits)

lemma lle_zero_N:
  assumes "case ip of None \<Rightarrow> True | Some v \<Rightarrow> length v = length sp"
  shows "returned (largest_lyapunov_exponent f sp ds 0 p dt ip rc)
       = Inr (if rc then Convergence [] else Scalar NaN)"
  using matching_add(1) [OF assms, of ds]
  by (simp add: largest_lyapunov_exponent_def Let_def initial_frame_def np_zeros_def aggregate_def
      np_cumsum_def np_arange1_def np_scale_def broadcast_def np_average_def np_sum_def)

lemma caller_perturbation_Some:
  "caller_perturbation (largest_lyapunov_exponent f sp ds N p dt (Some v) rc)
     = Some (map (\<lambda>a. a * (ds / linalg_norm v)) v)"
  by (simp add: largest_lyapunov_exponent_def Let_def scaled_perturbation_def np_scale_def
      split: sum.splits prod.splits)

text \<open>The definitions a concrete call is evaluated with.\<close>

lemmas lle_unfold =
  largest_lyapunov_exponent_def scaled_perturbation_def np_ones_def np_scale_def linalg_norm_def
  np_sum_def np_add_def np_subtract_def broadcast_def initial_frame_def np_zeros_def block_def
  renormalize_def aggregate_def np_cumsum_def np_arange1_def np_average_def minus_npfloat_def
  Let_def

section \<open>Finite values and the renormalisation\<close>

text \<open>
  Finite results come from finite operands only, and a norm that is finite belongs to a
  vector of finite entries.
\<close>

lemma plus_finite: "a + b = Fin c \<Longrightarrow> is_finite a \<and> is_finite b"
  by (cases a; cases b) simp_all

lemma minus_finite: "a - b = Fin c \<Longrightarrow> is_finite a \<and> is_finite b"
  by (cases a; cases b) (simp_all add: minus_npfloat_def)

lemma times_finite: "a * b = Fin c \<Longrightarrow> is_finite a \<and> is_finite b"
  by (cases a; cases b) (simp_all split: if_splits)

lemma divide_not_finite: "\<not> is_finite a \<Longrightarrow> \<not> is_finite (a / b)"
  by (cases a; cases b) simp_all

lemma foldl_plus_finite:
  "foldl (+) a zs = Fin q \<Longrightarrow> is_finite a \<and> (\<forall>z\<in>set zs. is_finite z)"
proof (induction zs arbitrary: a)
  case Nil
  then show ?case by simp
next
  case (Cons z zs)
  then have "is_finite (a + z)" and rest: "\<forall>y\<in>set zs. is_finite y" by auto
  then obtain c where "a + z = Fin c" by (cases "a + z") simp_all
  then show ?case using plus_finite rest by auto
qed

lemma all_finite_map_Fin: "(\<forall>a\<in>set xs. is_finite a) \<Longrightarrow> \<exists>r. xs = map Fin r"
proof (induction xs)
  case Nil
  then show ?case by simp
next
  case (Cons a xs)
  then obtain r where "xs = map Fin r" by auto
  moreover obtain c where "a = Fin c" using Cons.prems by (cases a) simp_all
  ultimately have "a # xs = map Fin (c # r)" by simp
  then show ?case by (rule exI)
qed

lemma linalg_norm_finite:
  assumes "linalg_norm dx = Fin n"
  shows "\<exists>d. dx = map Fin d \<and> n = sqrt (\<Sum>a\<leftarrow>d. a * a)"
proof -
  obtain q where q: "np_sum (map (\<lambda>a. a * a) dx) = Fin q"
    using assms by (cases "np_sum (map (\<lambda>a. a * a) dx)") (simp_all add: linalg_norm_def split: if_splits)
  then have "\<forall>z\<in>set (map (\<lambda>a. a * a) dx). is_finite z"
    using foldl_plus_finite [of "Fin 0" "map (\<lambda>a. a * a) dx" q] by (simp add: np_sum_def)
  then have "\<forall>a\<in>set dx. is_finite a"
  proof (intro ballI)
    fix a assume h: "\<forall>z\<in>set (map (\<lambda>a. a * a) dx). is_finite z" and a: "a \<in> set dx"
    then have "is_finite (a * a)" by simp
    then obtain c where "a * a = Fin c" by (cases "a * a") simp_all
    then show "is_finite a" using times_finite by blast
  qed
  then obtain d where d: "dx = map Fin d" using all_finite_map_Fin by blast
  then show ?thesis using assms by (auto simp: linalg_norm_Fin)
qed

lemma map2_minus_finite:
  assumes "length xp = length x" and "map2 (-) xp x = map Fin d"
  shows "\<exists>xr. x = map Fin xr \<and> length xr = length d"
  using assms
proof (induction xp x arbitrary: d rule: list_induct2)
  case Nil
  then show ?case by simp
next
  case (Cons a xp b x)
  then obtain c d' where d: "d = c # d'" and ab: "a - b = Fin c" and rest: "map2 (-) xp x = map Fin d'"
    by (cases d) auto
  from Cons.IH [OF rest] obtain xr where xr: "x = map Fin xr" "length xr = length d'" by blast
  from ab obtain br where "b = Fin br" using minus_finite [of a b c] by (cases b) simp_all
  with xr d have "b # x = map Fin (br # xr) \<and> length (br # xr) = length d" by simp
  then show ?case by (rule exI)
qed

lemma restart_divergence:
  assumes "length d = length xr"
  shows "map2 (-) (map2 (+) (map Fin xr) (map (\<lambda>a. a * Fin c) (map Fin d))) (map Fin xr)
       = map Fin (map (\<lambda>a. a * c) d)"
  using assms by (induction d xr rule: list_induct2) (simp_all add: minus_npfloat_def)

lemma sum_squares_scaled: "(\<Sum>a\<leftarrow>d. (a * c) * (a * c)) = (c * c) * (\<Sum>a\<leftarrow>d. a * (a::real))"
  by (induction d) (simp_all add: algebra_simps)

lemma scaled_norm:
  assumes "0 \<le> s" and "sqrt (\<Sum>a\<leftarrow>d. a * a) \<noteq> 0"
  shows "linalg_norm (map Fin (map (\<lambda>a. a * (s / sqrt (\<Sum>a\<leftarrow>d. a * a))) d)) = Fin s"
proof -
  define n where "n = sqrt (\<Sum>a\<leftarrow>d. a * a)"
  have n: "0 < n" using assms(2) sum_squares_nonneg [of d] by (simp add: n_def less_le)
  have "(\<Sum>a\<leftarrow>map (\<lambda>a. a * (s / n)) d. a * a) = (s / n) * (s / n) * (\<Sum>a\<leftarrow>d. a * a)"
    using sum_squares_scaled [of "s / n" d] by (simp add: o_def)
  then have "sqrt (\<Sum>a\<leftarrow>map (\<lambda>a. a * (s / n)) d. a * a) = (s / n) * n"
    using assms(1) n by (simp add: real_sqrt_mult n_def)
  then show ?thesis using n by (simp add: linalg_norm_Fin n_def [symmetric] del: map_map)
qed

lemma restart_norm:
  assumes len: "length d = length xr" and s: "0 \<le> s"
    and n: "linalg_norm (map Fin d) = Fin n" "n \<noteq> 0"
  shows "\<exists>xp dx. np_add (map Fin xr) (np_scale (map Fin d) (Fin s / Fin n)) = Inr xp
           \<and> length xp = length xr
           \<and> np_subtract xp (map Fin xr) = Inr dx \<and> linalg_norm dx = Fin s"
proof -
  have nd: "n = sqrt (\<Sum>a\<leftarrow>d. a * a)" using n(1) by (simp add: linalg_norm_Fin)
  let ?xp = "map2 (+) (map Fin xr) (map (\<lambda>a. a * Fin (s / n)) (map Fin d))"
  have 1: "np_add (map Fin xr) (np_scale (map Fin d) (Fin s / Fin n)) = Inr ?xp"
    using len n(2) by (simp add: np_add_def np_scale_def broadcast_def)
  have 2: "length ?xp = length xr" using len by simp
  have 3: "np_subtract ?xp (map Fin xr) = Inr (map Fin (map (\<lambda>a. a * (s / n)) d))"
    using len restart_divergence [OF len, of "s / n"]
    by (simp add: np_subtract_def broadcast_def del: map_map)
  have 4: "linalg_norm (map Fin (map (\<lambda>a. a * (s / n)) d)) = Fin s"
    using scaled_norm [OF s, of d] n(2) unfolding nd by simp
  show ?thesis using 1 2 3 4 by blast
qed

lemma renormalize_norm:
  assumes len: "length (x_pert fr) = length (x_main fr)"
    and i: "i < length (log_divergence fr)"
    and s: "0 \<le> s"
    and dx: "np_subtract (x_pert fr) (x_main fr) = Inr dx"
    and n: "linalg_norm dx = Fin n" "n \<noteq> 0"
  shows "\<exists>fr' dx'. renormalize (Fin s) i fr = Inr fr'
           \<and> np_subtract (x_pert fr') (x_main fr') = Inr dx' \<and> linalg_norm dx' = Fin s"
proof -
  have dx2: "dx = map2 (-) (x_pert fr) (x_main fr)"
    using dx len by (simp add: np_subtract_def broadcast_def)
  obtain d where d: "dx = map Fin d" using linalg_norm_finite [OF n(1)] by blast
  obtain xr where xr: "x_main fr = map Fin xr" "length xr = length d"
    using map2_minus_finite [OF len, of d] dx2 d by auto
  obtain xp dx' where
    xp: "np_add (map Fin xr) (np_scale (map Fin d) (Fin s / Fin n)) = Inr xp"
    and dx': "np_subtract xp (map Fin xr) = Inr dx'" "linalg_norm dx' = Fin s"
    using restart_norm [OF xr(2) [symmetric] s, of n] n d by auto
  let ?fr' = "fr\<lparr>x_pert := xp,
      log_divergence := (log_divergence fr)[i := np_log (Fin n / Fin s)]\<rparr>"
  have "renormalize (Fin s) i fr = Inr ?fr'"
    using dx i xp n(1) by (simp add: renormalize_def Let_def xr(1) d)
  moreover have "np_subtract (x_pert ?fr') (x_main ?fr') = Inr dx'"
    using dx'(1) by (simp add: xr(1))
  ultimately show ?thesis using dx'(2) by blast
qed

lemma initial_norm:
  assumes s: "0 \<le> s"
    and ip: "case ipr of None \<Rightarrow> spr \<noteq> []
             | Some vr \<Rightarrow> length vr = length spr \<and> (\<exists>a\<in>set vr. a \<noteq> 0)"
  shows "\<exists>xp0 dx0.
      np_add (map Fin spr) (scaled_perturbation (map Fin spr) (Fin s) (map_option (map Fin) ipr))
        = Inr xp0
    \<and> length xp0 = length spr
    \<and> np_subtract xp0 (map Fin spr) = Inr dx0 \<and> linalg_norm dx0 = Fin s"
proof -
  define v where "v = (case ipr of None \<Rightarrow> replicate (length spr) 1 | Some vr \<Rightarrow> vr)"
  define n where "n = sqrt (\<Sum>a\<leftarrow>v. a * a)"
  have len: "length v = length spr"
    using ip by (simp add: v_def split: option.splits)
  have "\<exists>a\<in>set v. a \<noteq> 0"
    using ip by (auto simp: v_def split: option.splits)
  then have n0: "n \<noteq> 0"
    using sum_squares_zero [of v] by (auto simp: n_def)
  have norm: "linalg_norm (map Fin v) = Fin n"
    by (simp add: linalg_norm_Fin n_def)
  have "scaled_perturbation (map Fin spr) (Fin s) (map_option (map Fin) ipr)
      = np_scale (map Fin v) (Fin s / Fin n)"
    using norm by (simp add: scaled_perturbation_def v_def np_ones_def Let_def split: option.splits)
  then show ?thesis
    using restart_norm [OF len s norm n0] by simp
qed

section \<open>A run to evaluate: the second block of the doubling map\<close>

text \<open>
  The doubling map again, two blocks of one step: the first block leaves \<open>x = 2\<close> and
  \<open>x_pert = 3\<close>, the second measures a divergence of norm two.
\<close>

lemma doubling_start:
  "np_add (map Fin [1]) (scaled_perturbation (map Fin [1]) (Fin 1) (map_option (map Fin) None))
     = Inr [Fin 2]"
  by (simp add: lle_unfold)

lemma doubling_first_block:
  "blocks (map (\<lambda>a. Fin 2 * a)) (Fin 1) 1 [0..<1] (initial_frame (map Fin [1]) [Fin 2] 2)
     = Inr \<lparr>x_main = [Fin 2], x_pert = [Fin 3], log_divergence = [Fin (ln 2), Fin 0],
            iter_calls = 2\<rparr>"
  by (simp add: lle_unfold numeral_2_eq_2)

lemma doubling_second_divergence:
  "np_subtract
     (x_pert (time_steps (map (\<lambda>a. Fin 2 * a)) (nat 1)
        \<lparr>x_main = [Fin 2], x_pert = [Fin 3], log_divergence = [Fin (ln 2), Fin 0], iter_calls = 2\<rparr>))
     (x_main (time_steps (map (\<lambda>a. Fin 2 * a)) (nat 1)
        \<lparr>x_main = [Fin 2], x_pert = [Fin 3], log_divergence = [Fin (ln 2), Fin 0], iter_calls = 2\<rparr>))
     = Inr [Fin 2]"
  by (simp add: lle_unfold)

lemma norm_two: "linalg_norm [Fin 2] = Fin 2"
  using linalg_norm_Fin [of "[2]"] by simp

lemma np_log_zero_ratio: "\<not> is_finite (np_log (Fin 0 / ds))"
  by (cases ds) simp_all

lemma np_sum_not_finite:
  assumes "z \<in> set zs" and "\<not> is_finite z"
  shows "\<not> is_finite (np_sum zs)"
proof
  assume "is_finite (np_sum zs)"
  then obtain q where "foldl (+) (Fin 0) zs = Fin q"
    by (cases "np_sum zs") (simp_all add: np_sum_def)
  then have "\<forall>y\<in>set zs. is_finite y" using foldl_plus_finite by blast
  with assms show False by blast
qed

lemma measured_divergence:
  fixes f :: iterator
  assumes f: "\<And>v. length (f v) = length v"
    and len: "length xp0 = length x0"
    and k: "k < nat N"
    and run: "blocks f ds p [0..<k] (initial_frame x0 xp0 N) = Inr fr0"
    and dx: "np_subtract (x_pert (time_steps f (nat p) fr0)) (x_main (time_steps f (nat p) fr0)) = Inr dx"
  shows "dx = spec_divergence f ds (nat p) x0 xp0 k"
proof -
  have "k \<le> length (np_zeros (nat N))" using k by (simp add: np_zeros_def)
  from blocks_run [OF f len this, of ds p] run
  have fr0: "x_main fr0 = fst (spec_trajectories f ds (nat p) x0 xp0 k)"
    "x_pert fr0 = snd (spec_trajectories f ds (nat p) x0 xp0 k)"
    by (auto simp: initial_frame_def)
  have "length (x_pert (time_steps f (nat p) fr0)) = length (x_main (time_steps f (nat p) fr0))"
    using spec_trajectories_length [OF f len, of ds "nat p" k]
    by (simp add: time_steps_eq fr0 funpow_length [OF f])
  then show ?thesis
    using dx by (auto simp: np_subtract_def broadcast_def spec_divergence_def time_steps_eq fr0
        split: prod.splits)
qed

section \<open>A run to evaluate: the map to zero\<close>

text \<open>
  The map \<open>x \<mapsto> 0 x\<close> sends both trajectories to the origin in one step: the first
  block measures a divergence of norm zero.
\<close>

lemma collapse_start:
  "np_add [Fin 1] (scaled_perturbation [Fin 1] (Fin 1) None) = Inr [Fin 2]"
  by (simp add: lle_unfold)

lemma collapse_divergence:
  "np_subtract
     (x_pert (time_steps (map (\<lambda>a. Fin 0 * a)) (nat 1) (initial_frame [Fin 1] [Fin 2] 1)))
     (x_main (time_steps (map (\<lambda>a. Fin 0 * a)) (nat 1) (initial_frame [Fin 1] [Fin 2] 1)))
     = Inr [Fin 0]"
  by (simp add: lle_unfold)

lemma norm_zero: "linalg_norm [Fin 0] = Fin 0"
  using linalg_norm_Fin [of "[0]"] by simp

lemma collapse_run:
  "returned (largest_lyapunov_exponent (map (\<lambda>a. Fin 0 * a)) [Fin 1] (Fin 1) 1 1 (Fin 1) None True)
     = Inr (Convergence [NInf])"
  "returned (largest_lyapunov_exponent (map (\<lambda>a. Fin 0 * a)) [Fin 1] (Fin 1) 1 1 (Fin 1) None False)
     = Inr (Scalar NInf)"
  by (simp_all add: lle_unfold)

section \<open>The claims\<close>

text \<open>
  C1. In convergence mode, for a valid input (\<open>N \<ge> 1\<close>, \<open>part_time_steps \<ge> 1\<close>, a
  perturbation of the starting point's dimension, an iterator that keeps the dimension),
  the call returns a sequence of length \<open>N\<close> whose \<open>k\<close>-th entry, for \<open>k\<close> from 1 to \<open>N\<close>,
  is the sum of the first \<open>k\<close> log-divergences over \<open>k * dt * part_time_steps\<close>, the
  log-divergence of a block being \<open>ln (norm (x_pert - x) / deviation_scale)\<close> after both
  trajectories made \<open>part_time_steps\<close> steps in it. The positivity of
  \<open>deviation_scale\<close> is not needed.
\<close>

theorem convergence_entries:
  fixes iterator_func :: iterator
  assumes "1 \<le> N" and "1 \<le> part_time_steps"
    and "\<And>v. length (iterator_func v) = length v"
    and "case initial_perturbation of None \<Rightarrow> True | Some v \<Rightarrow> length v = length starting_point"
  shows "\<exists>conv.
      returned (largest_lyapunov_exponent iterator_func starting_point deviation_scale N
                  part_time_steps dt initial_perturbation True) = Inr (Convergence conv)
    \<and> length conv = nat N
    \<and> (\<forall>k. 1 \<le> k \<and> k \<le> nat N \<longrightarrow>
          conv ! (k - 1) =
            np_sum (map (spec_log_divergence iterator_func deviation_scale (nat part_time_steps)
                           starting_point
                           (map2 (+) starting_point
                              (scaled_perturbation starting_point deviation_scale initial_perturbation)))
                        [0..<k])
            / (Fin (real k) * dt * Fin (real_of_int part_time_steps)))"
proof -
  let ?ld = "spec_log_divergence iterator_func deviation_scale (nat part_time_steps) starting_point
       (map2 (+) starting_point (scaled_perturbation starting_point deviation_scale initial_perturbation))"
  let ?conv = "map (\<lambda>k. np_sum (take k (map ?ld [0..<nat N])) / (Fin (real k) * dt * Fin (real_of_int part_time_steps)))
                        [1..<Suc (nat N)]"
  have N: "0 \<le> N" using assms(1) by simp
  have ret: "returned (largest_lyapunov_exponent iterator_func starting_point deviation_scale N
                  part_time_steps dt initial_perturbation True) = Inr (Convergence ?conv)"
    using aggregate_convergence [OF N, of "map ?ld [0..<nat N]" part_time_steps dt]
    by (simp add: lle_valid [OF assms(3) assms(4) N] Let_def del: upt_Suc)
  have entry: "?conv ! (k - 1) = np_sum (map ?ld [0..<k]) / (Fin (real k) * dt * Fin (real_of_int part_time_steps))"
    if "1 \<le> k" "k \<le> nat N" for k
  proof -
    have "k - 1 < length [1..<Suc (nat N)]" using that by simp
    then have "?conv ! (k - 1) = np_sum (take k (map ?ld [0..<nat N])) / (Fin (real k) * dt * Fin (real_of_int part_time_steps))"
      using that by (simp add: nth_map del: upt_Suc)
    moreover have "take k (map ?ld [0..<nat N]) = map ?ld [0..<k]"
      using that by (simp add: take_map take_upt del: upt_Suc)
    ultimately show ?thesis by simp
  qed
  show ?thesis
    using ret entry by (intro exI [of _ ?conv]) simp
qed

theorem convergence_entries_witness:
  "(1::int) \<le> 2 \<and> (1::int) \<le> 1
   \<and> (\<forall>v::ndarray. length (map (\<lambda>a. Fin 2 * a) v) = length v)
   \<and> (\<exists>conv. returned (largest_lyapunov_exponent (map (\<lambda>a. Fin 2 * a)) [Fin 1] (Fin 1) 2 1 (Fin 1)
                  None True) = Inr (Convergence conv)
        \<and> length conv = 2 \<and> conv ! 0 = Fin (ln 2) \<and> conv ! 1 = Fin (ln 2))"
proof -
  obtain conv where
    ret: "returned (largest_lyapunov_exponent (map (\<lambda>a. Fin 2 * a)) [Fin 1] (Fin 1) 2 1 (Fin 1) None True)
          = Inr (Convergence conv)"
    and len: "length conv = nat 2"
    and entry: "\<And>k. 1 \<le> k \<and> k \<le> nat 2 \<Longrightarrow>
          conv ! (k - 1) =
            np_sum (map (spec_log_divergence (map (\<lambda>a. Fin 2 * a)) (Fin 1) (nat 1) [Fin 1]
                           (map2 (+) [Fin 1] (scaled_perturbation [Fin 1] (Fin 1) None)))
                        [0..<k])
            / (Fin (real k) * Fin 1 * Fin (real_of_int 1))"
    using convergence_entries [where N = 2 and part_time_steps = 1
        and iterator_func = "map (\<lambda>a. Fin 2 * a)" and initial_perturbation = None
        and starting_point = "[Fin 1]" and deviation_scale = "Fin 1" and dt = "Fin 1"]
    by auto
  have "conv ! 0 = Fin (ln 2)"
    using entry [of 1] by (simp add: ones_perturbation_1d doubling_log_divergence_0 np_sum_def)
  moreover have "conv ! 1 = Fin (ln 2)"
    using entry [of 2] by (simp add: ones_perturbation_1d doubling_log_divergence_0 doubling_log_divergence_1 np_sum_def numeral_2_eq_2)
  ultimately show ?thesis using ret len by simp
qed

text \<open>
  C2. The claim compares two float64 values that the code computes along different paths:
  \<^verbatim>\<open>np.average(log_divergence) / (dt * part_time_steps)\<close> and the last entry of
  \<^verbatim>\<open>np.cumsum(log_divergence) / (np.arange(1, N + 1) * dt * part_time_steps)\<close>. Every
  product and quotient of the two is rounded, and the roundings differ, so whether the two
  floats are equal is a question of rounding. The finite numbers of this theory are exact
  reals: the claim is not stated on them, and no theorem here settles it.
\<close>

text \<open>
  C3. The claim that a non-positive \<open>N\<close>, \<open>part_time_steps\<close> or \<open>deviation_scale\<close> is
  rejected before any iterator call does not hold: the function validates none of them.
  With \<open>N = 0\<close> it returns the empty sequence, with \<open>part_time_steps = 0\<close> it returns a
  sequence, with \<open>deviation_scale = 0\<close> it invokes the iterator and returns a sequence.
\<close>

theorem nonpositive_configuration_counterexample:
  "returned (largest_lyapunov_exponent (\<lambda>v. v) [Fin 1] (Fin 1) 0 1 (Fin 1) None True)
     = Inr (Convergence [])
   \<and> returned (largest_lyapunov_exponent (\<lambda>v. v) [Fin 1] (Fin 1) 1 0 (Fin 1) None True)
     = Inr (Convergence [NaN])
   \<and> iterator_calls (largest_lyapunov_exponent (\<lambda>v. v) [Fin 1] (Fin 0) 1 1 (Fin 1) None True) = 2
   \<and> returned (largest_lyapunov_exponent (\<lambda>v. v) [Fin 1] (Fin 0) 1 1 (Fin 1) None True)
     = Inr (Convergence [NaN])"
  by (simp add: lle_unfold)

text \<open>
  C3, as the code has it. For a perturbation of the starting point's dimension and an
  iterator that keeps the dimension: a negative \<open>N\<close> is rejected, by the \<^verbatim>\<open>ValueError\<close> of
  \<^verbatim>\<open>np.zeros(N)\<close>, before any iterator call; \<open>N = 0\<close> is not rejected, no iterator call
  is made and the call returns the empty sequence in convergence mode and \<^verbatim>\<open>nan\<close> in
  scalar mode; and for every \<open>N \<ge> 0\<close>, whatever \<open>part_time_steps\<close> and
  \<open>deviation_scale\<close> are, the call returns a value after \<open>2 * N * part_time_steps\<close>
  iterator calls, none when \<open>part_time_steps \<le> 0\<close>.
\<close>

theorem nonpositive_configuration_outcome:
  fixes iterator_func :: iterator
  assumes "\<And>v. length (iterator_func v) = length v"
    and "case initial_perturbation of None \<Rightarrow> True | Some v \<Rightarrow> length v = length starting_point"
  shows "(N < 0 \<longrightarrow>
            returned (largest_lyapunov_exponent iterator_func starting_point deviation_scale N
                part_time_steps dt initial_perturbation return_convergence) = Inl ValueError
          \<and> iterator_calls (largest_lyapunov_exponent iterator_func starting_point deviation_scale N
                part_time_steps dt initial_perturbation return_convergence) = 0)
       \<and> (N = 0 \<longrightarrow>
            returned (largest_lyapunov_exponent iterator_func starting_point deviation_scale N
                part_time_steps dt initial_perturbation return_convergence)
              = Inr (if return_convergence then Convergence [] else Scalar NaN)
          \<and> iterator_calls (largest_lyapunov_exponent iterator_func starting_point deviation_scale N
                part_time_steps dt initial_perturbation return_convergence) = 0)
       \<and> (0 \<le> N \<longrightarrow>
            (\<exists>r. returned (largest_lyapunov_exponent iterator_func starting_point deviation_scale N
                part_time_steps dt initial_perturbation return_convergence) = Inr r)
          \<and> iterator_calls (largest_lyapunov_exponent iterator_func starting_point deviation_scale N
                part_time_steps dt initial_perturbation return_convergence)
              = 2 * nat N * nat part_time_steps)"
proof -
  have bc: "length (scaled_perturbation starting_point deviation_scale initial_perturbation)
              = length starting_point
          \<or> length (scaled_perturbation starting_point deviation_scale initial_perturbation) = 1
          \<or> length starting_point = 1"
    using assms(2) by (simp add: scaled_perturbation_length split: option.splits)
  show ?thesis
    using lle_negative_N [of N iterator_func starting_point deviation_scale part_time_steps dt
        initial_perturbation return_convergence]
      lle_zero_N [OF assms(2), of iterator_func deviation_scale part_time_steps dt return_convergence]
      lle_broadcastable [OF assms(1) _ bc, of N part_time_steps dt return_convergence]
    by auto
qed

theorem nonpositive_configuration_outcome_witness:
  "(\<forall>v::ndarray. length v = length v)
   \<and> returned (largest_lyapunov_exponent (\<lambda>v. v) [Fin 1] (Fin 1) (- 1) 1 (Fin 1) None True)
       = Inl ValueError
   \<and> iterator_calls (largest_lyapunov_exponent (\<lambda>v. v) [Fin 1] (Fin 1) (- 1) 1 (Fin 1) None True) = 0
   \<and> returned (largest_lyapunov_exponent (\<lambda>v. v) [Fin 1] (Fin 1) 0 1 (Fin 1) None False)
       = Inr (Scalar NaN)
   \<and> iterator_calls (largest_lyapunov_exponent (\<lambda>v. v) [Fin 1] (Fin 0) 3 0 (Fin 1) None True) = 0
   \<and> iterator_calls (largest_lyapunov_exponent (\<lambda>v. v) [Fin 1] (Fin 0) 3 2 (Fin 1) None True) = 12"
  using nonpositive_configuration_outcome [where iterator_func = "\<lambda>v. v" and starting_point = "[Fin 1]"
      and deviation_scale = "Fin 1" and N = "- 1" and part_time_steps = 1 and dt = "Fin 1"
      and initial_perturbation = None and return_convergence = True]
    nonpositive_configuration_outcome [where iterator_func = "\<lambda>v. v" and starting_point = "[Fin 1]"
      and deviation_scale = "Fin 1" and N = 0 and part_time_steps = 1 and dt = "Fin 1"
      and initial_perturbation = None and return_convergence = False]
    nonpositive_configuration_outcome [where iterator_func = "\<lambda>v. v" and starting_point = "[Fin 1]"
      and deviation_scale = "Fin 0" and N = 3 and part_time_steps = 0 and dt = "Fin 1"
      and initial_perturbation = None and return_convergence = True]
    nonpositive_configuration_outcome [where iterator_func = "\<lambda>v. v" and starting_point = "[Fin 1]"
      and deviation_scale = "Fin 0" and N = 3 and part_time_steps = 2 and dt = "Fin 1"
      and initial_perturbation = None and return_convergence = True]
  by simp

text \<open>
  C4. The claim that a perturbation of another dimension than the starting point's is
  always rejected, never broadcast, does not hold: a perturbation of dimension one is
  broadcast against a starting point of dimension two, the loop runs and a sequence is
  returned.
\<close>

theorem dimension_mismatch_counterexample:
  "returned (largest_lyapunov_exponent (\<lambda>v. v) [Fin 1, Fin 2] (Fin 1) 1 1 (Fin 1) (Some [Fin 1]) True)
     = Inr (Convergence [Fin (ln (sqrt 2))])
   \<and> iterator_calls
       (largest_lyapunov_exponent (\<lambda>v. v) [Fin 1, Fin 2] (Fin 1) 1 1 (Fin 1) (Some [Fin 1]) True) = 2"
  by (simp add: lle_unfold)

text \<open>
  C4, as the code has it. When the dimensions differ (\<open>N \<ge> 0\<close>, an iterator that keeps
  the dimension): if neither dimension is one, \<^verbatim>\<open>starting_point + initial_perturbation\<close>
  raises \<^verbatim>\<open>ValueError\<close> before any iterator call, the caller's array being already
  rescaled in place by then; if one of the two dimensions is one, numpy broadcasts, nothing
  is raised and the call returns a value after \<open>2 * N * part_time_steps\<close> iterator calls.
\<close>

theorem dimension_mismatch_outcome:
  fixes iterator_func :: iterator
  assumes "\<And>v. length (iterator_func v) = length v"
    and "0 \<le> N"
    and "length v \<noteq> length starting_point"
  shows "(length v \<noteq> 1 \<and> length starting_point \<noteq> 1 \<longrightarrow>
            returned (largest_lyapunov_exponent iterator_func starting_point deviation_scale N
                part_time_steps dt (Some v) return_convergence) = Inl ValueError
          \<and> iterator_calls (largest_lyapunov_exponent iterator_func starting_point deviation_scale N
                part_time_steps dt (Some v) return_convergence) = 0
          \<and> caller_perturbation (largest_lyapunov_exponent iterator_func starting_point
                deviation_scale N part_time_steps dt (Some v) return_convergence)
              = Some (map (\<lambda>a. a * (deviation_scale / linalg_norm v)) v))
       \<and> (length v = 1 \<or> length starting_point = 1 \<longrightarrow>
            (\<exists>r. returned (largest_lyapunov_exponent iterator_func starting_point deviation_scale N
                part_time_steps dt (Some v) return_convergence) = Inr r)
          \<and> iterator_calls (largest_lyapunov_exponent iterator_func starting_point deviation_scale N
                part_time_steps dt (Some v) return_convergence)
              = 2 * nat N * nat part_time_steps)"
proof (intro conjI impI)
  assume "length v \<noteq> 1 \<and> length starting_point \<noteq> 1"
  then have a: "length v \<noteq> 1" and b: "length starting_point \<noteq> 1" by simp_all
  show "returned (largest_lyapunov_exponent iterator_func starting_point deviation_scale N
                part_time_steps dt (Some v) return_convergence) = Inl ValueError"
    by (rule lle_not_broadcastable(1) [OF assms(2) assms(3) a b])
  show "iterator_calls (largest_lyapunov_exponent iterator_func starting_point deviation_scale N
                part_time_steps dt (Some v) return_convergence) = 0"
    by (rule lle_not_broadcastable(2) [OF assms(2) assms(3) a b])
  show "caller_perturbation (largest_lyapunov_exponent iterator_func starting_point
                deviation_scale N part_time_steps dt (Some v) return_convergence)
              = Some (map (\<lambda>a. a * (deviation_scale / linalg_norm v)) v)"
    by (rule caller_perturbation_Some)
next
  assume one: "length v = 1 \<or> length starting_point = 1"
  then have bc: "length (scaled_perturbation starting_point deviation_scale (Some v))
              = length starting_point
          \<or> length (scaled_perturbation starting_point deviation_scale (Some v)) = 1
          \<or> length starting_point = 1"
    by (simp add: scaled_perturbation_length)
  show "\<exists>r. returned (largest_lyapunov_exponent iterator_func starting_point deviation_scale N
                part_time_steps dt (Some v) return_convergence) = Inr r"
    by (rule lle_broadcastable(1) [OF assms(1) assms(2) bc])
  show "iterator_calls (largest_lyapunov_exponent iterator_func starting_point deviation_scale N
                part_time_steps dt (Some v) return_convergence)
              = 2 * nat N * nat part_time_steps"
    by (rule lle_broadcastable(2) [OF assms(1) assms(2) bc])
qed

theorem dimension_mismatch_outcome_witness:
  "(\<forall>v::ndarray. length v = length v) \<and> (0::int) \<le> 1
   \<and> length [Fin 1, Fin 1] \<noteq> length [Fin 1, Fin 2, Fin 3]
   \<and> returned (largest_lyapunov_exponent (\<lambda>v. v) [Fin 1, Fin 2, Fin 3] (Fin 1) 1 1 (Fin 1)
          (Some [Fin 1, Fin 1]) True) = Inl ValueError
   \<and> iterator_calls (largest_lyapunov_exponent (\<lambda>v. v) [Fin 1, Fin 2, Fin 3] (Fin 1) 1 1 (Fin 1)
          (Some [Fin 1, Fin 1]) True) = 0
   \<and> length [Fin 1] \<noteq> length [Fin 1, Fin 2, Fin 3]
   \<and> iterator_calls (largest_lyapunov_exponent (\<lambda>v. v) [Fin 1, Fin 2, Fin 3] (Fin 1) 1 1 (Fin 1)
          (Some [Fin 1]) True) = 2"
  using dimension_mismatch_outcome [where iterator_func = "\<lambda>v. v"
      and starting_point = "[Fin 1, Fin 2, Fin 3]" and deviation_scale = "Fin 1" and N = 1
      and part_time_steps = 1 and dt = "Fin 1" and v = "[Fin 1, Fin 1]"
      and return_convergence = True]
    dimension_mismatch_outcome [where iterator_func = "\<lambda>v. v"
      and starting_point = "[Fin 1, Fin 2, Fin 3]" and deviation_scale = "Fin 1" and N = 1
      and part_time_steps = 1 and dt = "Fin 1" and v = "[Fin 1]"
      and return_convergence = True]
  by simp

text \<open>
  C5. When the caller passes an array as \<^verbatim>\<open>initial_perturbation\<close>, line 45 overwrites it
  in place: after the call, whatever it returned or raised, the caller's array holds the
  original vector times \<open>deviation_scale / norm\<close> of the original. These are new values
  whenever the original is a finite vector whose norm is neither zero nor
  \<open>deviation_scale\<close> itself.
\<close>

theorem caller_array_rescaled:
  "caller_perturbation (largest_lyapunov_exponent iterator_func starting_point deviation_scale N
       part_time_steps dt (Some v) return_convergence)
     = Some (map (\<lambda>a. a * (deviation_scale / linalg_norm v)) v)
   \<and> (\<forall>r s. v = map Fin r \<and> deviation_scale = Fin s
          \<and> sqrt (\<Sum>a\<leftarrow>r. a * a) \<noteq> 0 \<and> sqrt (\<Sum>a\<leftarrow>r. a * a) \<noteq> s \<longrightarrow>
        caller_perturbation (largest_lyapunov_exponent iterator_func starting_point deviation_scale N
            part_time_steps dt (Some v) return_convergence) \<noteq> Some v)"
proof -
  have eq: "caller_perturbation (largest_lyapunov_exponent iterator_func starting_point deviation_scale N
       part_time_steps dt (Some v) return_convergence)
     = Some (map (\<lambda>a. a * (deviation_scale / linalg_norm v)) v)"
    by (simp add: largest_lyapunov_exponent_def Let_def scaled_perturbation_def np_scale_def
        split: sum.splits prod.splits)
  have neq: "map (\<lambda>a. a * (Fin s / linalg_norm (map Fin r))) (map Fin r) \<noteq> map Fin r"
    if n0: "sqrt (\<Sum>a\<leftarrow>r. a * a) \<noteq> 0" and ns: "sqrt (\<Sum>a\<leftarrow>r. a * a) \<noteq> s" for r s
  proof
    define n where "n = sqrt (\<Sum>a\<leftarrow>r. a * a)"
    assume "map (\<lambda>a. a * (Fin s / linalg_norm (map Fin r))) (map Fin r) = map Fin r"
    then have all: "\<forall>a\<in>set r. a * (s / n) = a"
      using n0 by (simp add: linalg_norm_Fin n_def)
    from n0 obtain a where a: "a \<in> set r" "a \<noteq> 0"
      using sum_squares_zero [of r] by auto
    from all a(1) have "a * (s / n) = a" by blast
    with a(2) have "s / n = 1" by (metis mult_cancel_left2)
    moreover have "n \<noteq> 0" "n \<noteq> s" using n0 ns by (simp_all add: n_def)
    ultimately show False by (metis divide_eq_1_iff)
  qed
  show ?thesis
  proof (intro conjI allI impI)
    show "caller_perturbation (largest_lyapunov_exponent iterator_func starting_point deviation_scale N
       part_time_steps dt (Some v) return_convergence)
     = Some (map (\<lambda>a. a * (deviation_scale / linalg_norm v)) v)"
      by (rule eq)
  next
    fix r s
    assume h: "v = map Fin r \<and> deviation_scale = Fin s
          \<and> sqrt (\<Sum>a\<leftarrow>r. a * a) \<noteq> 0 \<and> sqrt (\<Sum>a\<leftarrow>r. a * a) \<noteq> s"
    then have v: "v = map Fin r" and d: "deviation_scale = Fin s"
      and n0: "sqrt (\<Sum>a\<leftarrow>r. a * a) \<noteq> 0" and ns: "sqrt (\<Sum>a\<leftarrow>r. a * a) \<noteq> s"
      by simp_all
    show "caller_perturbation (largest_lyapunov_exponent iterator_func starting_point deviation_scale N
            part_time_steps dt (Some v) return_convergence) \<noteq> Some v"
      unfolding eq unfolding v d using neq [OF n0 ns] by simp
  qed
qed

theorem caller_array_rescaled_witness:
  "caller_perturbation (largest_lyapunov_exponent (\<lambda>v. v) [Fin 1] (Fin 1) 1 1 (Fin 1)
       (Some [Fin 2]) True) = Some [Fin 1]
   \<and> caller_perturbation (largest_lyapunov_exponent (\<lambda>v. v) [Fin 1] (Fin 1) 1 1 (Fin 1)
       (Some [Fin 2]) True) \<noteq> Some [Fin 2]"
proof -
  have n: "linalg_norm [Fin 2] = Fin 2"
    using linalg_norm_Fin [of "[2]"] by simp
  show ?thesis
    using caller_array_rescaled [where v = "[Fin 2]" and deviation_scale = "Fin 1"
        and iterator_func = "\<lambda>v. v" and starting_point = "[Fin 1]" and N = 1
        and part_time_steps = 1 and dt = "Fin 1" and return_convergence = True]
    by (simp add: n)
qed

text \<open>
  C6. The claim that \<open>norm (x_pert - x)\<close> is \<open>deviation_scale\<close> right after the
  initialisation for every valid input does not hold for a perturbation that is the zero
  vector, of the starting point's dimension: its norm is zero, line 45 multiplies it by
  \<open>deviation_scale / 0\<close>, the perturbed trajectory starts at \<^verbatim>\<open>nan\<close>, and so do the norm and
  the sequence returned.
\<close>

theorem zero_perturbation_counterexample:
  "np_add [Fin 1] (scaled_perturbation [Fin 1] (Fin 1) (Some [Fin 0])) = Inr [NaN]
   \<and> np_subtract [NaN] [Fin 1] = Inr [NaN]
   \<and> linalg_norm [NaN] \<noteq> Fin 1
   \<and> returned (largest_lyapunov_exponent (map (\<lambda>a. Fin 2 * a)) [Fin 1] (Fin 1) 1 1 (Fin 1)
         (Some [Fin 0]) True) = Inr (Convergence [NaN])"
  by (simp add: lle_unfold)

text \<open>
  C6, as the code has it. For \<open>deviation_scale > 0\<close>, a starting point of real numbers, an
  iterator that keeps the dimension, and a perturbation of real numbers of the starting
  point's dimension that is not the zero vector (or no perturbation and a dimension of at
  least one): \<open>norm (x_pert - x)\<close> is exactly \<open>deviation_scale\<close> right after the
  initialisation, and right after the renormalisation that ends block \<open>k\<close>, for every
  \<open>k < N\<close> whose measured norm is finite and not zero.
\<close>

theorem perturbation_magnitude_invariant:
  fixes iterator_func :: iterator
  assumes "0 < s"
    and "\<And>v. length (iterator_func v) = length v"
    and "case ipr of None \<Rightarrow> spr \<noteq> []
         | Some vr \<Rightarrow> length vr = length spr \<and> (\<exists>a\<in>set vr. a \<noteq> 0)"
  shows "\<exists>xp0 dx0.
      np_add (map Fin spr) (scaled_perturbation (map Fin spr) (Fin s) (map_option (map Fin) ipr))
        = Inr xp0
    \<and> np_subtract xp0 (map Fin spr) = Inr dx0 \<and> linalg_norm dx0 = Fin s
    \<and> (\<forall>k fr0 dx n.
          k < nat N
        \<and> blocks iterator_func (Fin s) part_time_steps [0..<k]
              (initial_frame (map Fin spr) xp0 N) = Inr fr0
        \<and> np_subtract (x_pert (time_steps iterator_func (nat part_time_steps) fr0))
              (x_main (time_steps iterator_func (nat part_time_steps) fr0)) = Inr dx
        \<and> linalg_norm dx = Fin n \<and> n \<noteq> 0
        \<longrightarrow> (\<exists>fr dx'.
              blocks iterator_func (Fin s) part_time_steps [0..<Suc k]
                (initial_frame (map Fin spr) xp0 N) = Inr fr
            \<and> np_subtract (x_pert fr) (x_main fr) = Inr dx' \<and> linalg_norm dx' = Fin s))"
proof -
  have s: "0 \<le> s" using assms(1) by simp
  obtain xp0 dx0 where
    xp0: "np_add (map Fin spr) (scaled_perturbation (map Fin spr) (Fin s) (map_option (map Fin) ipr))
        = Inr xp0"
    and len0: "length xp0 = length spr"
    and dx0: "np_subtract xp0 (map Fin spr) = Inr dx0" "linalg_norm dx0 = Fin s"
    using initial_norm [OF s assms(3)] by blast
  let ?init = "initial_frame (map Fin spr) xp0 N"
  let ?p = "nat part_time_steps"
  have step: "\<exists>fr dx'. blocks iterator_func (Fin s) part_time_steps [0..<Suc k] ?init = Inr fr
            \<and> np_subtract (x_pert fr) (x_main fr) = Inr dx' \<and> linalg_norm dx' = Fin s"
    if k: "k < nat N"
      and run: "blocks iterator_func (Fin s) part_time_steps [0..<k] ?init = Inr fr0"
      and dx: "np_subtract (x_pert (time_steps iterator_func ?p fr0))
                 (x_main (time_steps iterator_func ?p fr0)) = Inr dx"
      and n: "linalg_norm dx = Fin n" "n \<noteq> 0"
    for k fr0 dx n
  proof -
    let ?T = "spec_trajectories iterator_func (Fin s) ?p (map Fin spr) xp0"
    have len: "length xp0 = length (map Fin spr)" using len0 by simp
    have "k \<le> length (np_zeros (nat N))" using k by (simp add: np_zeros_def)
    from blocks_run [OF assms(2) len this, of "Fin s" part_time_steps] run
    have fr0: "x_main fr0 = fst (?T k)" "x_pert fr0 = snd (?T k)"
      "length (log_divergence fr0) = nat N"
      using k by (auto simp: initial_frame_def np_zeros_def)
    let ?fr1 = "time_steps iterator_func ?p fr0"
    have l1: "length (x_pert ?fr1) = length (x_main ?fr1)"
      using spec_trajectories_length [OF assms(2) len, of "Fin s" ?p k]
      by (simp add: time_steps_eq fr0 funpow_length [OF assms(2)])
    have i1: "k < length (log_divergence ?fr1)"
      using k fr0(3) by (simp add: time_steps_eq)
    have "blocks iterator_func (Fin s) part_time_steps [0..<Suc k] ?init
        = renormalize (Fin s) k ?fr1"
      by (simp add: blocks_append run block_def split: sum.splits)
    then show ?thesis
      using renormalize_norm [OF l1 i1 s dx n] by simp
  qed
  show ?thesis
    using xp0 dx0 step by (intro exI [of _ xp0] exI [of _ dx0]) blast
qed

theorem perturbation_magnitude_invariant_witness:
  "(0::real) < 1
   \<and> (\<forall>v::ndarray. length (map (\<lambda>a. Fin 2 * a) v) = length v)
   \<and> [1::real] \<noteq> []
   \<and> np_add (map Fin [1]) (scaled_perturbation (map Fin [1]) (Fin 1) (map_option (map Fin) None))
       = Inr [Fin 2]
   \<and> (1::nat) < nat 2
   \<and> blocks (map (\<lambda>a. Fin 2 * a)) (Fin 1) 1 [0..<1] (initial_frame (map Fin [1]) [Fin 2] 2)
       = Inr \<lparr>x_main = [Fin 2], x_pert = [Fin 3], log_divergence = [Fin (ln 2), Fin 0],
              iter_calls = 2\<rparr>
   \<and> linalg_norm [Fin 2] = Fin 2 \<and> (2::real) \<noteq> 0
   \<and> (\<exists>fr dx'. blocks (map (\<lambda>a. Fin 2 * a)) (Fin 1) 1 [0..<Suc 1]
                   (initial_frame (map Fin [1]) [Fin 2] 2) = Inr fr
          \<and> np_subtract (x_pert fr) (x_main fr) = Inr dx' \<and> linalg_norm dx' = Fin 1)"
proof -
  obtain xp0 dx0 where
    xp0: "np_add (map Fin [1]) (scaled_perturbation (map Fin [1]) (Fin 1) (map_option (map Fin) None))
        = Inr xp0"
    and blocks: "\<And>k fr0 dx n.
          k < nat 2
        \<and> blocks (map (\<lambda>a. Fin 2 * a)) (Fin 1) 1 [0..<k] (initial_frame (map Fin [1]) xp0 2) = Inr fr0
        \<and> np_subtract (x_pert (time_steps (map (\<lambda>a. Fin 2 * a)) (nat 1) fr0))
              (x_main (time_steps (map (\<lambda>a. Fin 2 * a)) (nat 1) fr0)) = Inr dx
        \<and> linalg_norm dx = Fin n \<and> n \<noteq> 0
        \<Longrightarrow> (\<exists>fr dx'.
              blocks (map (\<lambda>a. Fin 2 * a)) (Fin 1) 1 [0..<Suc k] (initial_frame (map Fin [1]) xp0 2) = Inr fr
            \<and> np_subtract (x_pert fr) (x_main fr) = Inr dx' \<and> linalg_norm dx' = Fin 1)"
    using perturbation_magnitude_invariant [where s = 1 and iterator_func = "map (\<lambda>a. Fin 2 * a)"
        and ipr = None and spr = "[1]" and N = 2 and part_time_steps = 1]
    by auto
  have x: "xp0 = [Fin 2]" using xp0 doubling_start by simp
  have "\<exists>fr dx'. blocks (map (\<lambda>a. Fin 2 * a)) (Fin 1) 1 [0..<Suc 1]
                   (initial_frame (map Fin [1]) [Fin 2] 2) = Inr fr
          \<and> np_subtract (x_pert fr) (x_main fr) = Inr dx' \<and> linalg_norm dx' = Fin 1"
    using blocks [of 1 "\<lparr>x_main = [Fin 2], x_pert = [Fin 3], log_divergence = [Fin (ln 2), Fin 0],
              iter_calls = 2\<rparr>" "[Fin 2]" 2]
      doubling_first_block doubling_second_divergence norm_two
    unfolding x by simp
  then show ?thesis
    using doubling_start doubling_first_block norm_two by simp
qed



text \<open>
  C8. When the norm of the divergence is exactly zero at the end of block \<open>k\<close>, the call
  raises nothing and stops nothing: all \<open>N\<close> blocks run, both modes return, and the value
  that is not finite (the logarithm of zero, then the products of the division by zero)
  reaches the output: every entry of the convergence sequence from index \<open>k\<close> on, and the
  scalar, are not finite.
\<close>

theorem zero_divergence_propagates:
  fixes iterator_func :: iterator
  assumes "\<And>v. length (iterator_func v) = length v"
    and "case initial_perturbation of None \<Rightarrow> True | Some v \<Rightarrow> length v = length starting_point"
    and "k < nat N"
    and "np_add starting_point
           (scaled_perturbation starting_point deviation_scale initial_perturbation) = Inr xp0"
    and "blocks iterator_func deviation_scale part_time_steps [0..<k]
           (initial_frame starting_point xp0 N) = Inr fr0"
    and "np_subtract (x_pert (time_steps iterator_func (nat part_time_steps) fr0))
           (x_main (time_steps iterator_func (nat part_time_steps) fr0)) = Inr dx"
    and "linalg_norm dx = Fin 0"
  shows "\<exists>conv v.
      returned (largest_lyapunov_exponent iterator_func starting_point deviation_scale N
                  part_time_steps dt initial_perturbation True) = Inr (Convergence conv)
    \<and> length conv = nat N
    \<and> (\<forall>j. k \<le> j \<and> j < nat N \<longrightarrow> \<not> is_finite (conv ! j))
    \<and> returned (largest_lyapunov_exponent iterator_func starting_point deviation_scale N
                  part_time_steps dt initial_perturbation False) = Inr (Scalar v)
    \<and> \<not> is_finite v
    \<and> iterator_calls (largest_lyapunov_exponent iterator_func starting_point deviation_scale N
                  part_time_steps dt initial_perturbation True) = 2 * nat N * nat part_time_steps"
proof -
  let ?sp = "scaled_perturbation starting_point deviation_scale initial_perturbation"
  let ?p = "nat part_time_steps"
  have N: "0 \<le> N" using assms(3) by simp
  have xp0: "xp0 = map2 (+) starting_point ?sp"
    using assms(4) matching_add(1) [OF assms(2), of deviation_scale] by simp
  have len: "length xp0 = length starting_point"
    using matching_add(2) [OF assms(2), of deviation_scale] by (simp add: xp0)
  let ?ld = "map (spec_log_divergence iterator_func deviation_scale ?p starting_point xp0) [0..<nat N]"
  let ?den = "\<lambda>j. Fin (real j) * dt * Fin (real_of_int part_time_steps)"
  let ?conv = "map (\<lambda>j. np_sum (take j ?ld) / ?den j) [1..<Suc (nat N)]"
  let ?v = "np_average ?ld / (dt * Fin (real_of_int part_time_steps))"
  have "dx = spec_divergence iterator_func deviation_scale ?p starting_point xp0 k"
    by (rule measured_divergence [OF assms(1) len assms(3) assms(5) assms(6)])
  then have "spec_log_divergence iterator_func deviation_scale ?p starting_point xp0 k
      = np_log (Fin 0 / deviation_scale)"
    using assms(7) by (simp add: spec_log_divergence_def)
  then have bad: "\<not> is_finite (?ld ! k)"
    using assms(3) np_log_zero_ratio [of deviation_scale] by simp
  have ret_conv: "returned (largest_lyapunov_exponent iterator_func starting_point deviation_scale N
                  part_time_steps dt initial_perturbation True) = Inr (Convergence ?conv)"
    using aggregate_convergence [OF N, of ?ld part_time_steps dt]
    by (simp add: lle_valid [OF assms(1) assms(2) N] Let_def xp0 del: upt_Suc)
  have ret_scalar: "returned (largest_lyapunov_exponent iterator_func starting_point deviation_scale N
                  part_time_steps dt initial_perturbation False) = Inr (Scalar ?v)"
    by (simp add: lle_valid [OF assms(1) assms(2) N] Let_def xp0 aggregate_scalar del: upt_Suc)
  have calls: "iterator_calls (largest_lyapunov_exponent iterator_func starting_point deviation_scale N
                  part_time_steps dt initial_perturbation True) = 2 * nat N * nat part_time_steps"
    by (simp add: lle_valid [OF assms(1) assms(2) N] Let_def)
  have entry: "\<not> is_finite (?conv ! j)" if "k \<le> j" "j < nat N" for j
  proof -
    have "?ld ! k \<in> set (take (Suc j) ?ld)"
      using that assms(3) by (auto simp: in_set_conv_nth intro!: exI [of _ k])
    then have "\<not> is_finite (np_sum (take (Suc j) ?ld))"
      using bad np_sum_not_finite by blast
    moreover have "?conv ! j = np_sum (take (Suc j) ?ld) / ?den (Suc j)"
      using that by (simp add: nth_map del: upt_Suc)
    ultimately show ?thesis using divide_not_finite by simp
  qed
  have "?ld ! k \<in> set ?ld" using assms(3) by (simp del: upt_Suc)
  then have "\<not> is_finite (np_sum ?ld)" using bad np_sum_not_finite by blast
  then have v: "\<not> is_finite ?v" by (simp add: np_average_def divide_not_finite)
  have "length ?conv = nat N" by simp
  with ret_conv ret_scalar calls entry v show ?thesis
    by (intro exI [of _ ?conv] exI [of _ ?v]) blast
qed

theorem zero_divergence_propagates_witness:
  "(\<forall>v::ndarray. length (map (\<lambda>a. Fin 0 * a) v) = length v)
   \<and> (0::nat) < nat 1
   \<and> np_add [Fin 1] (scaled_perturbation [Fin 1] (Fin 1) None) = Inr [Fin 2]
   \<and> blocks (map (\<lambda>a. Fin 0 * a)) (Fin 1) 1 [0..<0] (initial_frame [Fin 1] [Fin 2] 1)
       = Inr (initial_frame [Fin 1] [Fin 2] 1)
   \<and> np_subtract
       (x_pert (time_steps (map (\<lambda>a. Fin 0 * a)) (nat 1) (initial_frame [Fin 1] [Fin 2] 1)))
       (x_main (time_steps (map (\<lambda>a. Fin 0 * a)) (nat 1) (initial_frame [Fin 1] [Fin 2] 1)))
       = Inr [Fin 0]
   \<and> linalg_norm [Fin 0] = Fin 0
   \<and> returned (largest_lyapunov_exponent (map (\<lambda>a. Fin 0 * a)) [Fin 1] (Fin 1) 1 1 (Fin 1)
         None True) = Inr (Convergence [NInf])
   \<and> \<not> is_finite ([NInf] ! 0)
   \<and> returned (largest_lyapunov_exponent (map (\<lambda>a. Fin 0 * a)) [Fin 1] (Fin 1) 1 1 (Fin 1)
         None False) = Inr (Scalar NInf)
   \<and> iterator_calls (largest_lyapunov_exponent (map (\<lambda>a. Fin 0 * a)) [Fin 1] (Fin 1) 1 1 (Fin 1)
         None True) = 2"
proof -
  have f: "\<And>v::ndarray. length (map (\<lambda>a. Fin 0 * a) v) = length v" by simp
  have ip: "case None of None \<Rightarrow> True | Some (v::ndarray) \<Rightarrow> length v = length [Fin 1]" by simp
  have k: "0 < nat 1" by simp
  have run: "blocks (map (\<lambda>a. Fin 0 * a)) (Fin 1) 1 [0..<0] (initial_frame [Fin 1] [Fin 2] 1)
       = Inr (initial_frame [Fin 1] [Fin 2] 1)" by simp
  obtain conv v where
    "returned (largest_lyapunov_exponent (map (\<lambda>a. Fin 0 * a)) [Fin 1] (Fin 1) 1 1 (Fin 1)
         None True) = Inr (Convergence conv)"
    "\<forall>j. 0 \<le> j \<and> j < nat 1 \<longrightarrow> \<not> is_finite (conv ! j)"
    "returned (largest_lyapunov_exponent (map (\<lambda>a. Fin 0 * a)) [Fin 1] (Fin 1) 1 1 (Fin 1)
         None False) = Inr (Scalar v)"
    "\<not> is_finite v"
    "iterator_calls (largest_lyapunov_exponent (map (\<lambda>a. Fin 0 * a)) [Fin 1] (Fin 1) 1 1 (Fin 1)
         None True) = 2 * nat 1 * nat 1"
    using zero_divergence_propagates [OF f ip k collapse_start run collapse_divergence norm_zero,
        of "Fin 1"]
    by blast
  then show ?thesis
    using collapse_start collapse_divergence norm_zero collapse_run by simp
qed




end
